theory Spec2Isabelle
  imports Complex_Main "HOL-Library.AList"
begin

section \<open>Values, documents and Python built-ins\<close>

text \<open>
  A Python float is a real number, one of the two infinities, or NaN. Signed zero is
  not distinguished: every comparison of the program treats the two zeros alike.
  All comparisons with NaN are false.
\<close>

datatype pyfloat = Num real | PInf | NInf | NaN

fun flt_lt :: "pyfloat \<Rightarrow> pyfloat \<Rightarrow> bool" where
  "flt_lt NaN b = False"
| "flt_lt a NaN = False"
| "flt_lt (Num x) (Num y) = (x < y)"
| "flt_lt NInf NInf = False"
| "flt_lt NInf b = True"
| "flt_lt a NInf = False"
| "flt_lt PInf b = False"
| "flt_lt a PInf = True"

fun flt_le :: "pyfloat \<Rightarrow> pyfloat \<Rightarrow> bool" where
  "flt_le NaN b = False"
| "flt_le a NaN = False"
| "flt_le (Num x) (Num y) = (x \<le> y)"
| "flt_le NInf b = True"
| "flt_le a PInf = True"
| "flt_le a NInf = False"
| "flt_le PInf b = False"

text \<open>
  The built-ins \<open>min(a, b)\<close> and \<open>max(a, b)\<close>: the first argument is kept unless the
  second is strictly smaller (strictly greater).
\<close>

definition py_min :: "pyfloat \<Rightarrow> pyfloat \<Rightarrow> pyfloat" where
  "py_min a b = (if flt_lt b a then b else a)"

definition py_max :: "pyfloat \<Rightarrow> pyfloat \<Rightarrow> pyfloat" where
  "py_max a b = (if flt_lt a b then b else a)"

text \<open>
  The values a JSON body or a stored document holds. \<open>VObjectId h\<close> is a store
  identifier with hexadecimal text \<open>h\<close>. A document (a Python dict) is an association
  list: \<open>AList.update\<close> assigns a key, \<open>AList.delete\<close> removes it.
\<close>

datatype val =
    VNone
  | VBool bool
  | VInt int
  | VFloat pyfloat
  | VStr string
  | VList "val list"
  | VObjectId string

type_synonym doc = "(string \<times> val) list"

text \<open>
  The kinds of scalar a pydantic field can ask for.
\<close>

datatype kind = KStr | KFloat | KInt | KBool

text \<open>
  What the program calls and this repository does not define. Of pydantic: \<open>lax k v\<close>,
  its conversion of a scalar \<open>v\<close> to kind \<open>k\<close> when \<open>v\<close> is of another type (a numeric
  string for a float, say; \<open>None\<close> when it refuses); whether a \<open>ge\<close>/\<open>le\<close> bound check
  lets NaN through; the \<open>HttpUrl\<close> and \<open>datetime\<close> parsers (the text of the parsed,
  normalised value, or \<open>None\<close> when the input is refused). Of the store: the
  regular-expression engine (pattern, options; \<open>None\<close> when it refuses the pattern).
  Of Python: \<open>repr\<close> for the values whose \<open>str()\<close> is not needed below.
\<close>

record libs =
  lax :: "kind \<Rightarrow> val \<Rightarrow> val option"
  nan_in_bounds :: bool
  parse_url :: "string \<Rightarrow> string option"
  parse_datetime :: "val \<Rightarrow> string option"
  regex_compile :: "string \<Rightarrow> string \<Rightarrow> (string \<Rightarrow> bool) option"
  py_repr :: "val \<Rightarrow> string"

definition py_str :: "libs \<Rightarrow> val \<Rightarrow> string" where
  "py_str L v = (case v of VObjectId h \<Rightarrow> h | VStr s \<Rightarrow> s | _ \<Rightarrow> py_repr L v)"

text \<open>
  A Python \<open>str\<close> is modelled by the bytes of its UTF-8 encoding. Python counts and
  slices code points, so \<open>len(s)\<close> and \<open>s[:n]\<close> are written out on the encoding: a
  code point is one byte that is not a continuation byte (\<open>0x80\<close> to \<open>0xBF\<close>),
  followed by its continuation bytes.
\<close>

definition is_cont :: "char \<Rightarrow> bool" where
  "is_cont c = (128 \<le> (of_char c :: nat) \<and> (of_char c :: nat) < 192)"

definition py_len :: "string \<Rightarrow> nat" where
  "py_len s = length (filter (\<lambda>c. \<not> is_cont c) s)"

fun py_prefix :: "nat \<Rightarrow> string \<Rightarrow> string" where
  "py_prefix n [] = []"
| "py_prefix n (c # cs) =
     (if is_cont c then c # py_prefix n cs
      else (case n of 0 \<Rightarrow> [] | Suc k \<Rightarrow> c # py_prefix k cs))"

text \<open>\<open>str.lower()\<close> on ASCII text.\<close>

definition lower_char :: "char \<Rightarrow> char" where
  "lower_char c =
     (case map_of (zip ''ABCDEFGHIJKLMNOPQRSTUVWXYZ'' ''abcdefghijklmnopqrstuvwxyz'') c of
        Some l \<Rightarrow> l
      | None \<Rightarrow> c)"

definition lower :: "string \<Rightarrow> string" where
  "lower s = map lower_char s"

section \<open>Helpers of main.py\<close>

datatype model_cls = User | Cat | Sighting | Place | Post | Emergency | Report | Badge | Article

fun class_name :: "model_cls \<Rightarrow> string" where
  "class_name User = ''User''"
| "class_name Cat = ''Cat''"
| "class_name Sighting = ''Sighting''"
| "class_name Place = ''Place''"
| "class_name Post = ''Post''"
| "class_name Emergency = ''Emergency''"
| "class_name Report = ''Report''"
| "class_name Badge = ''Badge''"
| "class_name Article = ''Article''"

definition collection_name :: "model_cls \<Rightarrow> string" where
  "collection_name model = lower (class_name model)"

definition to_public :: "libs \<Rightarrow> doc \<Rightarrow> doc" where
  "to_public L d =
     (if d = [] then d
      else (case map_of d ''_id'' of
              None \<Rightarrow> d
            | Some v \<Rightarrow> AList.update ''id'' (VStr (py_str L v)) (AList.delete ''_id'' d)))"

section \<open>Schemas (schemas.py)\<close>

text \<open>
  A pydantic field: its name, its type with the declared constraints, whether
  \<open>None\<close> is allowed (\<open>Optional[...]\<close>), and whether it is required (\<open>...\<close>) or has a
  default.
\<close>

datatype ftype =
    TStr "nat option"
  | TFloat "real option" "real option"
  | TInt
  | TBool
  | TLiteral "string list"
  | TUrl
  | TStrList
  | TDatetime

datatype presence = Required | Default val

datatype field = Field (fname: string) (ftype: ftype) (nullable: bool) (presence: presence)

text \<open>
  How a raw value is read at a scalar type. A value of the type itself is taken as it
  is, and an integer is taken for a float; \<open>None\<close>, lists and identifiers are refused;
  any other scalar is left to pydantic's conversion.
\<close>

fun to_str :: "libs \<Rightarrow> val \<Rightarrow> string option" where
  "to_str L (VStr s) = Some s"
| "to_str L VNone = None"
| "to_str L (VList vs) = None"
| "to_str L (VObjectId h) = None"
| "to_str L v = (case lax L KStr v of Some (VStr s) \<Rightarrow> Some s | _ \<Rightarrow> None)"

fun to_float :: "libs \<Rightarrow> val \<Rightarrow> pyfloat option" where
  "to_float L (VFloat x) = Some x"
| "to_float L (VInt i) = Some (Num (of_int i))"
| "to_float L VNone = None"
| "to_float L (VList vs) = None"
| "to_float L (VObjectId h) = None"
| "to_float L v = (case lax L KFloat v of Some (VFloat x) \<Rightarrow> Some x | _ \<Rightarrow> None)"

fun to_int :: "libs \<Rightarrow> val \<Rightarrow> int option" where
  "to_int L (VInt i) = Some i"
| "to_int L VNone = None"
| "to_int L (VList vs) = None"
| "to_int L (VObjectId h) = None"
| "to_int L v = (case lax L KInt v of Some (VInt i) \<Rightarrow> Some i | _ \<Rightarrow> None)"

fun to_bool :: "libs \<Rightarrow> val \<Rightarrow> bool option" where
  "to_bool L (VBool b) = Some b"
| "to_bool L VNone = None"
| "to_bool L (VList vs) = None"
| "to_bool L (VObjectId h) = None"
| "to_bool L v = (case lax L KBool v of Some (VBool b) \<Rightarrow> Some b | _ \<Rightarrow> None)"

text \<open>
  The bounds \<open>ge\<close> and \<open>le\<close> of a float field. NaN is neither below nor above a bound:
  what the check answers for it is pydantic's.
\<close>

definition bounds_ok :: "libs \<Rightarrow> real option \<Rightarrow> real option \<Rightarrow> pyfloat \<Rightarrow> bool" where
  "bounds_ok L ge le x =
     (if x = NaN then nan_in_bounds L
      else (case ge of None \<Rightarrow> True | Some l \<Rightarrow> flt_le (Num l) x) \<and>
           (case le of None \<Rightarrow> True | Some h \<Rightarrow> flt_le x (Num h)))"

fun is_str :: "val \<Rightarrow> bool" where
  "is_str (VStr s) = True"
| "is_str v = False"

text \<open>
  A value checked at a field type: the validated value, or \<open>None\<close> when it is refused.
  \<open>max_length\<close> counts code points; the items of a \<open>List[str]\<close> are read as strings
  one by one.
\<close>

fun check_type :: "libs \<Rightarrow> ftype \<Rightarrow> val \<Rightarrow> val option" where
  "check_type L (TStr m) v =
     (case to_str L v of
        None \<Rightarrow> None
      | Some s \<Rightarrow>
          if (case m of None \<Rightarrow> True | Some n \<Rightarrow> py_len s \<le> n) then Some (VStr s) else None)"
| "check_type L (TFloat ge le) v =
     (case to_float L v of
        None \<Rightarrow> None
      | Some x \<Rightarrow> if bounds_ok L ge le x then Some (VFloat x) else None)"
| "check_type L TInt v = map_option VInt (to_int L v)"
| "check_type L TBool v = map_option VBool (to_bool L v)"
| "check_type L (TLiteral allowed) (VStr s) =
     (if s \<in> set allowed then Some (VStr s) else None)"
| "check_type L TUrl (VStr s) = map_option VStr (parse_url L s)"
| "check_type L TStrList (VList vs) =
     map_option (\<lambda>ss. VList (map VStr ss)) (those (map (to_str L) vs))"
| "check_type L TDatetime VNone = None"
| "check_type L TDatetime v = map_option VStr (parse_datetime L v)"
| "check_type L t v = None"

text \<open>One field of a payload: the validated value, or \<open>None\<close> when the field fails.\<close>

definition check_field :: "libs \<Rightarrow> doc \<Rightarrow> field \<Rightarrow> val option" where
  "check_field L raw f =
     (case map_of raw (fname f) of
        None \<Rightarrow> (case presence f of Required \<Rightarrow> None | Default d \<Rightarrow> Some d)
      | Some v \<Rightarrow> if nullable f \<and> v = VNone then Some VNone else check_type L (ftype f) v)"

text \<open>
  A model's constructor: every field is checked, keys that are not fields are ignored;
  the result is the validated record, or the names of the fields that failed.
\<close>

fun validate :: "libs \<Rightarrow> doc \<Rightarrow> field list \<Rightarrow> string list + doc" where
  "validate L raw [] = Inr []"
| "validate L raw (f # fs) =
     (case (check_field L raw f, validate L raw fs) of
        (Some v, Inr d) \<Rightarrow> Inr ((fname f, v) # d)
      | (Some v, Inl es) \<Rightarrow> Inl es
      | (None, Inr d) \<Rightarrow> Inl [fname f]
      | (None, Inl es) \<Rightarrow> Inl (fname f # es))"

fun model_fields :: "model_cls \<Rightarrow> field list" where
  "model_fields User =
     [Field ''email'' (TStr None) False Required,
      Field ''nickname'' (TStr (Some 40)) False Required,
      Field ''avatar_url'' TUrl True (Default VNone),
      Field ''bio'' (TStr (Some 300)) True (Default VNone),
      Field ''role'' (TLiteral [''user'', ''volunteer'', ''moderator'', ''admin'']) False
        (Default (VStr ''user'')),
      Field ''points'' TInt False (Default (VInt 0)),
      Field ''badges'' TStrList False (Default (VList [])),
      Field ''is_active'' TBool False (Default (VBool True))]"
| "model_fields Cat =
     [Field ''name'' (TStr None) True (Default VNone),
      Field ''description'' (TStr (Some 500)) True (Default VNone),
      Field ''last_known_lat'' (TFloat (Some (- 90)) (Some 90)) True (Default VNone),
      Field ''last_known_lng'' (TFloat (Some (- 180)) (Some 180)) True (Default VNone),
      Field ''status'' (TLiteral [''unknown'', ''sterilized'', ''adopted'', ''injured'']) False
        (Default (VStr ''unknown'')),
      Field ''colony'' (TStr None) True (Default VNone),
      Field ''photo_url'' TUrl True (Default VNone)]"
| "model_fields Sighting =
     [Field ''cat_id'' (TStr None) True (Default VNone),
      Field ''lat'' (TFloat (Some (- 90)) (Some 90)) False Required,
      Field ''lng'' (TFloat (Some (- 180)) (Some 180)) False Required,
      Field ''note'' (TStr (Some 400)) True (Default VNone),
      Field ''photo_url'' TUrl True (Default VNone),
      Field ''status'' (TLiteral [''normal'', ''urgent'']) False (Default (VStr ''normal'')),
      Field ''created_by'' (TStr None) True (Default VNone),
      Field ''seen_at'' TDatetime True (Default VNone)]"
| "model_fields Place =
     [Field ''name'' (TStr None) False Required,
      Field ''category'' (TLiteral [''cat_cafe'', ''shelter'', ''colony'', ''event'', ''art''])
        False Required,
      Field ''description'' (TStr (Some 600)) True (Default VNone),
      Field ''lat'' (TFloat (Some (- 90)) (Some 90)) False Required,
      Field ''lng'' (TFloat (Some (- 180)) (Some 180)) False Required,
      Field ''address'' (TStr None) True (Default VNone),
      Field ''opening_hours'' (TStr None) True (Default VNone),
      Field ''contact'' (TStr None) True (Default VNone),
      Field ''website'' TUrl True (Default VNone),
      Field ''rating'' (TFloat (Some 0) (Some 5)) True (Default VNone),
      Field ''rating_count'' TInt False (Default (VInt 0))]"
| "model_fields Post =
     [Field ''author_id'' (TStr None) True (Default VNone),
      Field ''text'' (TStr (Some 1000)) False Required,
      Field ''photo_url'' TUrl True (Default VNone),
      Field ''tags'' TStrList False (Default (VList [])),
      Field ''lat'' (TFloat (Some (- 90)) (Some 90)) True (Default VNone),
      Field ''lng'' (TFloat (Some (- 180)) (Some 180)) True (Default VNone),
      Field ''miao_count'' TInt False (Default (VInt 0))]"
| "model_fields Emergency =
     [Field ''reporter_id'' (TStr None) True (Default VNone),
      Field ''lat'' (TFloat (Some (- 90)) (Some 90)) False Required,
      Field ''lng'' (TFloat (Some (- 180)) (Some 180)) False Required,
      Field ''description'' (TStr (Some 500)) False Required,
      Field ''photo_url'' TUrl True (Default VNone),
      Field ''status'' (TLiteral [''open'', ''in_progress'', ''resolved'']) False
        (Default (VStr ''open''))]"
| "model_fields Report =
     [Field ''reporter_id'' (TStr None) True (Default VNone),
      Field ''target_type'' (TLiteral [''post'', ''cat'', ''place'', ''sighting'']) False Required,
      Field ''target_id'' (TStr None) False Required,
      Field ''reason'' (TLiteral [''spam'', ''offensive'', ''duplicate'', ''privacy'', ''other''])
        False Required,
      Field ''note'' (TStr (Some 300)) True (Default VNone)]"
| "model_fields Badge =
     [Field ''code'' (TStr None) False Required,
      Field ''label'' (TStr None) False Required,
      Field ''description'' (TStr None) True (Default VNone),
      Field ''icon'' (TStr None) True (Default VNone)]"
| "model_fields Article =
     [Field ''title'' (TStr None) False Required,
      Field ''body'' (TStr None) False Required,
      Field ''cover_url'' TUrl True (Default VNone),
      Field ''author'' (TStr None) True (Default VNone),
      Field ''tags'' TStrList False (Default (VList []))]"

text \<open>\<open>SignupPayload\<close> of main.py.\<close>

definition SignupPayload :: "field list" where
  "SignupPayload =
     [Field ''email'' (TStr None) False Required,
      Field ''nickname'' (TStr None) False Required,
      Field ''avatar_url'' (TStr None) True (Default VNone)]"

text \<open>Attribute access on a validated model (the field is always there).\<close>

definition attr :: "doc \<Rightarrow> string \<Rightarrow> val" where
  "attr d k = (case map_of d k of Some v \<Rightarrow> v | None \<Rightarrow> VNone)"

section \<open>The document store (database.py, not among the sources)\<close>

datatype error =
    RequestValidationError "string list"
  | ModelValidationError "string list"
  | StoreUnavailable
  | WriteFailure string
  | QueryFailure string

text \<open>
  The connection handle \<open>db\<close>: absent, live but failing every operation with a
  message, or working.
\<close>

datatype conn = NoConnection | Failing string | Working

record store =
  db :: conn
  colls :: "(string \<times> doc list) list"
  next_id :: nat

definition docs_of :: "store \<Rightarrow> string \<Rightarrow> doc list" where
  "docs_of st c = (case map_of (colls st) c of None \<Rightarrow> [] | Some ds \<Rightarrow> ds)"

text \<open>The text of the n-th identifier the store hands out: 24 hexadecimal digits.\<close>

definition hex_digit :: "nat \<Rightarrow> char" where
  "hex_digit d = ''0123456789abcdef'' ! (d mod 16)"

fun hex_digits :: "nat \<Rightarrow> nat \<Rightarrow> string" where
  "hex_digits 0 n = []"
| "hex_digits (Suc k) n = hex_digits k (n div 16) @ [hex_digit n]"

definition new_oid :: "nat \<Rightarrow> string" where
  "new_oid n = hex_digits 24 n"

text \<open>
  Modelled from the spec: \<open>create_document\<close> of database.py, which is not among the
  sources. Spec 4.2: it persists the record as one new document and returns the
  store-assigned identifier as a string; it fails with StoreUnavailable when the
  connection is absent and with WriteFailure on a lower-level error.
\<close>

definition create_document :: "store \<Rightarrow> string \<Rightarrow> doc \<Rightarrow> (error + string) \<times> store" where
  "create_document st c data =
     (case db st of
        NoConnection \<Rightarrow> (Inl StoreUnavailable, st)
      | Failing msg \<Rightarrow> (Inl (WriteFailure msg), st)
      | Working \<Rightarrow>
          (let oid = new_oid (next_id st);
               d = (''_id'', VObjectId oid) # data
           in (Inr oid,
               st\<lparr>colls := AList.update c (docs_of st c @ [d]) (colls st),
                  next_id := Suc (next_id st)\<rparr>)))"

text \<open>
  Query filters as the handlers build them: a dict of field conditions, or
  \<open>{"$or": [dict, ...]}\<close>. A condition is an equality, \<open>{"$regex": p, "$options": o}\<close>
  or \<open>{"$gte": lo, "$lte": hi}\<close>.
\<close>

datatype cond = Eq val | Regex string string | Range pyfloat pyfloat

type_synonym clause = "(string \<times> cond) list"

datatype filt = Clause clause | Or "clause list"

fun cond_ok :: "libs \<Rightarrow> cond \<Rightarrow> bool" where
  "cond_ok L (Regex p opts) = (regex_compile L p opts \<noteq> None)"
| "cond_ok L c = True"

fun cond_holds :: "libs \<Rightarrow> cond \<Rightarrow> val option \<Rightarrow> bool" where
  "cond_holds L (Eq v) x = (x = Some v)"
| "cond_holds L (Regex p opts) (Some (VStr s)) =
     (case regex_compile L p opts of None \<Rightarrow> False | Some m \<Rightarrow> m s)"
| "cond_holds L (Range lo hi) (Some (VFloat x)) = (flt_le lo x \<and> flt_le x hi)"
| "cond_holds L (Range lo hi) (Some (VInt i)) =
     (flt_le lo (Num (of_int i)) \<and> flt_le (Num (of_int i)) hi)"
| "cond_holds L c x = False"

definition clause_holds :: "libs \<Rightarrow> clause \<Rightarrow> doc \<Rightarrow> bool" where
  "clause_holds L cl d = list_all (\<lambda>(k, c). cond_holds L c (map_of d k)) cl"

fun matches :: "libs \<Rightarrow> filt \<Rightarrow> doc \<Rightarrow> bool" where
  "matches L (Clause cl) d = clause_holds L cl d"
| "matches L (Or cls) d = list_ex (\<lambda>cl. clause_holds L cl d) cls"

fun filt_ok :: "libs \<Rightarrow> filt \<Rightarrow> bool" where
  "filt_ok L (Clause cl) = list_all (\<lambda>(k, c). cond_ok L c) cl"
| "filt_ok L (Or cls) = list_all (list_all (\<lambda>(k, c). cond_ok L c)) cls"

text \<open>
  Modelled from the spec: \<open>get_documents\<close> of database.py, which is not among the
  sources. Spec 4.2: it retrieves up to \<open>limit\<close> documents matching the filter, in
  store order; it fails with StoreUnavailable when the connection is absent, with
  QueryFailure when the store rejects the query, and returns the empty list when
  nothing matches.
\<close>

definition get_documents :: "libs \<Rightarrow> store \<Rightarrow> string \<Rightarrow> filt \<Rightarrow> int \<Rightarrow> error + doc list" where
  "get_documents L st c f limit =
     (case db st of
        NoConnection \<Rightarrow> Inl StoreUnavailable
      | Failing msg \<Rightarrow> Inl (QueryFailure msg)
      | Working \<Rightarrow>
          if filt_ok L f then Inr (take (nat limit) (filter (matches L f) (docs_of st c)))
          else Inl (QueryFailure ''invalid filter''))"

section \<open>Handlers of main.py\<close>

text \<open>
  \<open>Query(default, ge=lo, le=hi)\<close>: an omitted parameter takes the default, a given one
  outside the bounds is refused before the handler body runs.
\<close>

definition Query :: "int \<Rightarrow> int \<Rightarrow> int \<Rightarrow> int option \<Rightarrow> error + int" where
  "Query dflt lo hi given =
     (case given of
        None \<Rightarrow> Inr dflt
      | Some n \<Rightarrow> if lo \<le> n \<and> n \<le> hi then Inr n else Inl (RequestValidationError [''limit'']))"

text \<open>Truth value of an \<open>Optional[str]\<close>: false for \<open>None\<close> and for the empty string.\<close>

definition truthy :: "string option \<Rightarrow> bool" where
  "truthy q = (case q of None \<Rightarrow> False | Some s \<Rightarrow> s \<noteq> [])"

text \<open>The tail every list handler shares: query the collection, make each document public.\<close>

definition run_query :: "libs \<Rightarrow> store \<Rightarrow> model_cls \<Rightarrow> filt \<Rightarrow> int \<Rightarrow> error + doc list" where
  "run_query L st model f limit =
     (case get_documents L st (collection_name model) f limit of
        Inl e \<Rightarrow> Inl e
      | Inr docs \<Rightarrow> Inr (map (to_public L) docs))"

definition list_cats :: "libs \<Rightarrow> store \<Rightarrow> string option \<Rightarrow> int option \<Rightarrow> error + doc list" where
  "list_cats L st q limit =
     (case Query 50 1 200 limit of
        Inl e \<Rightarrow> Inl e
      | Inr n \<Rightarrow>
          run_query L st Cat
            (if truthy q
             then Or [[(''name'', Regex (the q) ''i'')], [(''description'', Regex (the q) ''i'')]]
             else Clause [])
            n)"

definition bbox :: "pyfloat option \<Rightarrow> pyfloat option \<Rightarrow> pyfloat option \<Rightarrow> pyfloat option \<Rightarrow> clause"
  where
  "bbox ne_lat ne_lng sw_lat sw_lng =
     (case (ne_lat, ne_lng, sw_lat, sw_lng) of
        (Some nlat, Some nlng, Some slat, Some slng) \<Rightarrow>
          [(''lat'', Range (py_min slat nlat) (py_max slat nlat)),
           (''lng'', Range (py_min slng nlng) (py_max slng nlng))]
      | _ \<Rightarrow> [])"

definition list_sightings ::
  "libs \<Rightarrow> store \<Rightarrow> pyfloat option \<Rightarrow> pyfloat option \<Rightarrow> pyfloat option \<Rightarrow> pyfloat option \<Rightarrow>
   int option \<Rightarrow> string option \<Rightarrow> error + doc list" where
  "list_sightings L st ne_lat ne_lng sw_lat sw_lng limit status =
     (case Query 100 1 500 limit of
        Inl e \<Rightarrow> Inl e
      | Inr n \<Rightarrow>
          run_query L st Sighting
            (Clause ((if truthy status then [(''status'', Eq (VStr (the status)))] else [])
                     @ bbox ne_lat ne_lng sw_lat sw_lng))
            n)"

definition list_places :: "libs \<Rightarrow> store \<Rightarrow> string option \<Rightarrow> int option \<Rightarrow> error + doc list" where
  "list_places L st category limit =
     (case Query 100 1 300 limit of
        Inl e \<Rightarrow> Inl e
      | Inr n \<Rightarrow>
          run_query L st Place
            (Clause (if truthy category then [(''category'', Eq (VStr (the category)))] else []))
            n)"

definition list_posts :: "libs \<Rightarrow> store \<Rightarrow> int option \<Rightarrow> error + doc list" where
  "list_posts L st limit =
     (case Query 50 1 200 limit of Inl e \<Rightarrow> Inl e | Inr n \<Rightarrow> run_query L st Post (Clause []) n)"

definition list_emergencies ::
  "libs \<Rightarrow> store \<Rightarrow> string option \<Rightarrow> int option \<Rightarrow> error + doc list" where
  "list_emergencies L st status limit =
     (case Query 50 1 200 limit of
        Inl e \<Rightarrow> Inl e
      | Inr n \<Rightarrow>
          run_query L st Emergency
            (Clause (if truthy status then [(''status'', Eq (VStr (the status)))] else []))
            n)"

definition list_badges :: "libs \<Rightarrow> store \<Rightarrow> int option \<Rightarrow> error + doc list" where
  "list_badges L st limit =
     (case Query 100 1 500 limit of Inl e \<Rightarrow> Inl e | Inr n \<Rightarrow> run_query L st Badge (Clause []) n)"

definition list_articles :: "libs \<Rightarrow> store \<Rightarrow> int option \<Rightarrow> error + doc list" where
  "list_articles L st limit =
     (case Query 50 1 200 limit of Inl e \<Rightarrow> Inl e | Inr n \<Rightarrow> run_query L st Article (Clause []) n)"

text \<open>
  A create handler: the body is validated against the model before the handler body
  runs; only a validated record reaches \<open>create_document\<close>. The answer is \<open>{"id": ...}\<close>.
\<close>

definition create :: "libs \<Rightarrow> store \<Rightarrow> model_cls \<Rightarrow> doc \<Rightarrow> (error + doc) \<times> store" where
  "create L st model body =
     (case validate L body (model_fields model) of
        Inl es \<Rightarrow> (Inl (RequestValidationError es), st)
      | Inr data \<Rightarrow>
          (case create_document st (collection_name model) data of
             (Inl e, st') \<Rightarrow> (Inl e, st')
           | (Inr oid, st') \<Rightarrow> (Inr [(''id'', VStr oid)], st')))"

definition create_cat :: "libs \<Rightarrow> store \<Rightarrow> doc \<Rightarrow> (error + doc) \<times> store" where
  "create_cat L st body = create L st Cat body"

definition create_sighting :: "libs \<Rightarrow> store \<Rightarrow> doc \<Rightarrow> (error + doc) \<times> store" where
  "create_sighting L st body = create L st Sighting body"

definition create_place :: "libs \<Rightarrow> store \<Rightarrow> doc \<Rightarrow> (error + doc) \<times> store" where
  "create_place L st body = create L st Place body"

definition create_emergency :: "libs \<Rightarrow> store \<Rightarrow> doc \<Rightarrow> (error + doc) \<times> store" where
  "create_emergency L st body = create L st Emergency body"

text \<open>
  \<open>signup\<close>: the body is validated as a \<open>SignupPayload\<close> (other keys are dropped); the
  \<open>User\<close> is then built inside the handler from the three payload fields and five
  constants, and a failure of that constructor is an error of the handler itself.
\<close>

definition signup :: "libs \<Rightarrow> store \<Rightarrow> doc \<Rightarrow> (error + doc) \<times> store" where
  "signup L st body =
     (case validate L body SignupPayload of
        Inl es \<Rightarrow> (Inl (RequestValidationError es), st)
      | Inr payload \<Rightarrow>
          (case validate L
                  [(''email'', attr payload ''email''),
                   (''nickname'', attr payload ''nickname''),
                   (''avatar_url'', attr payload ''avatar_url''),
                   (''bio'', VNone),
                   (''role'', VStr ''user''),
                   (''points'', VInt 0),
                   (''badges'', VList []),
                   (''is_active'', VBool True)]
                  (model_fields User) of
             Inl es \<Rightarrow> (Inl (ModelValidationError es), st)
           | Inr data \<Rightarrow>
               (case create_document st (collection_name User) data of
                  (Inl e, st') \<Rightarrow> (Inl e, st')
                | (Inr uid, st') \<Rightarrow> (Inr [(''id'', VStr uid)], st'))))"

text \<open>The GET routes that list a collection.\<close>

datatype request =
    GetCats "string option" "int option"
  | GetSightings "pyfloat option" "pyfloat option" "pyfloat option" "pyfloat option"
      "int option" "string option"
  | GetPlaces "string option" "int option"
  | GetPosts "int option"
  | GetEmergencies "string option" "int option"
  | GetBadges "int option"
  | GetArticles "int option"

fun handle_get :: "libs \<Rightarrow> store \<Rightarrow> request \<Rightarrow> error + doc list" where
  "handle_get L st (GetCats q limit) = list_cats L st q limit"
| "handle_get L st (GetSightings a b c d limit status) = list_sightings L st a b c d limit status"
| "handle_get L st (GetPlaces category limit) = list_places L st category limit"
| "handle_get L st (GetPosts limit) = list_posts L st limit"
| "handle_get L st (GetEmergencies status limit) = list_emergencies L st status limit"
| "handle_get L st (GetBadges limit) = list_badges L st limit"
| "handle_get L st (GetArticles limit) = list_articles L st limit"

fun listed :: "request \<Rightarrow> model_cls" where
  "listed (GetCats q limit) = Cat"
| "listed (GetSightings a b c d limit status) = Sighting"
| "listed (GetPlaces category limit) = Place"
| "listed (GetPosts limit) = Post"
| "listed (GetEmergencies status limit) = Emergency"
| "listed (GetBadges limit) = Badge"
| "listed (GetArticles limit) = Article"

section \<open>The diagnostic probe\<close>

text \<open>
  The marks of the status strings, as their UTF-8 bytes: U+2705, U+274C, and U+26A0
  followed by U+FE0F.
\<close>

definition check_mark :: string where
  "check_mark = [CHR 0xE2, CHR 0x9C, CHR 0x85]"

definition cross_mark :: string where
  "cross_mark = [CHR 0xE2, CHR 0x9D, CHR 0x8C]"

definition warning_sign :: string where
  "warning_sign = [CHR 0xE2, CHR 0x9A, CHR 0xA0, CHR 0xEF, CHR 0xB8, CHR 0x8F]"

text \<open>
  \<open>db.list_collection_names()\<close>: the names of the collections, or an exception
  (its message) raised by the store.
\<close>

definition list_collection_names :: "store \<Rightarrow> string + string list" where
  "list_collection_names st =
     (case db st of Failing msg \<Rightarrow> Inl msg | _ \<Rightarrow> Inr (map fst (colls st)))"

text \<open>
  \<open>test_database\<close>. A block of statements yields the exception it raised, if any, and
  the response dict as it stands at that point; \<open>Inl\<close> of the result is an exception
  that leaves the handler. \<open>env\<close> is the process environment read by \<open>os.getenv\<close>.
\<close>

definition test_database :: "store \<Rightarrow> (string \<times> string) list \<Rightarrow> string + doc" where
  "test_database st env =
     (let resp =
            [(''backend'', VStr (check_mark @ '' Running'')),
             (''database'', VStr (cross_mark @ '' Not Available'')),
             (''database_url'', VStr (cross_mark @ '' Not Set'')),
             (''database_name'', VStr (cross_mark @ '' Not Set'')),
             (''connection_status'', VStr ''Not Connected''),
             (''collections'', VList [])];
          outer =
            (if db st \<noteq> NoConnection then
               (let r1 = AList.update ''database'' (VStr (check_mark @ '' Available'')) resp;
                    r2 = AList.update ''database_url''
                           (VStr (if truthy (map_of env ''DATABASE_URL'')
                                  then check_mark @ '' Set'' else cross_mark @ '' Not Set'')) r1;
                    r3 = AList.update ''database_name''
                           (VStr (case map_of env ''DATABASE_NAME'' of
                                    None \<Rightarrow> cross_mark @ '' Not Set''
                                  | Some v \<Rightarrow> if v = [] then cross_mark @ '' Not Set'' else v)) r2;
                    r4 = AList.update ''connection_status'' (VStr ''Connected'') r3;
                    inner =
                      (case list_collection_names st of
                         Inl e \<Rightarrow> (Some e, r4)
                       | Inr names \<Rightarrow>
                           (None,
                            AList.update ''database''
                              (VStr (check_mark @ '' Connected & Working''))
                              (AList.update ''collections'' (VList (map VStr names)) r4)))
                in (case inner of
                      (Some e, r) \<Rightarrow>
                        (None :: string option,
                         AList.update ''database''
                           (VStr (warning_sign @ ''  Connected but Error: '' @ py_prefix 80 e)) r)
                    | (None, r) \<Rightarrow> (None, r)))
             else (None, resp))
      in (case outer of
            (Some e, r) \<Rightarrow>
              Inr (AList.update ''database'' (VStr (cross_mark @ '' Error: '' @ py_prefix 80 e)) r)
          | (None, r) \<Rightarrow> Inr r))"

section \<open>Example environment and stores\<close>

text \<open>
  An engine for the patterns made of ordinary characters and \<open>.\<close> (any one character
  but a newline, with the bytes that continue it), searched from every character of
  the subject and without regard to the case of ASCII letters; it refuses every
  other pattern. It serves as the engine of the examples.
\<close>

fun pat_prefix :: "string \<Rightarrow> string \<Rightarrow> bool" where
  "pat_prefix [] s = True"
| "pat_prefix (p # ps) [] = False"
| "pat_prefix (p # ps) (c # cs) =
     (if p = CHR ''.'' then c \<noteq> CHR 0x0A \<and> pat_prefix ps (dropWhile is_cont cs)
      else lower_char p = lower_char c \<and> pat_prefix ps cs)"

fun pat_search :: "string \<Rightarrow> string \<Rightarrow> bool" where
  "pat_search p [] = pat_prefix p []"
| "pat_search p (c # cs) = ((\<not> is_cont c \<and> pat_prefix p (c # cs)) \<or> pat_search p cs)"

definition dot_engine :: "string \<Rightarrow> string \<Rightarrow> (string \<Rightarrow> bool) option" where
  "dot_engine p opts =
     (if list_all (\<lambda>c. c \<notin> set ''^$*+?()[]{}|'' \<and> c \<noteq> CHR 0x5C) p \<and> opts = ''i''
      then Some (pat_search p) else None)"

definition example_libs :: libs where
  "example_libs =
     \<lparr>lax = (\<lambda>k v. None),
      nan_in_bounds = False,
      parse_url =
        (\<lambda>s. if take 7 s = ''http://'' \<or> take 8 s = ''https://'' then Some s else None),
      parse_datetime = (\<lambda>v. None),
      regex_compile = dot_engine,
      py_repr = (\<lambda>v. [])\<rparr>"

text \<open>
  Whether \<open>q\<close> occurs in \<open>s\<close> as a literal substring, without regard to the case of
  ASCII letters.
\<close>

fun starts_with_ci :: "string \<Rightarrow> string \<Rightarrow> bool" where
  "starts_with_ci [] s = True"
| "starts_with_ci (p # ps) [] = False"
| "starts_with_ci (p # ps) (c # cs) = (lower_char p = lower_char c \<and> starts_with_ci ps cs)"

fun contains_ci :: "string \<Rightarrow> string \<Rightarrow> bool" where
  "contains_ci q [] = starts_with_ci q []"
| "contains_ci q (c # cs) = (starts_with_ci q (c # cs) \<or> contains_ci q cs)"

definition empty_store :: store where
  "empty_store = \<lparr>db = Working, colls = [], next_id = 0\<rparr>"

text \<open>Every stored document carries the identifier the store assigned.\<close>

definition wf_store :: "store \<Rightarrow> bool" where
  "wf_store st =
     list_all (\<lambda>(c, ds). list_all (\<lambda>d. \<exists>h. map_of d ''_id'' = Some (VObjectId h)) ds)
       (colls st)"

text \<open>A store holding two sightings, and one holding two cats, as the create handlers store them.\<close>

definition sighting_store :: store where
  "sighting_store =
     \<lparr>db = Working,
      colls =
        [(''sighting'',
          [[(''_id'', VObjectId ''000000000000000000000000''),
            (''cat_id'', VNone), (''lat'', VFloat (Num 5)), (''lng'', VFloat (Num 0)),
            (''note'', VNone), (''photo_url'', VNone), (''status'', VStr ''normal''),
            (''created_by'', VNone), (''seen_at'', VNone)],
           [(''_id'', VObjectId ''000000000000000000000001''),
            (''cat_id'', VNone), (''lat'', VFloat (Num 50)), (''lng'', VFloat (Num 60)),
            (''note'', VNone), (''photo_url'', VNone), (''status'', VStr ''urgent''),
            (''created_by'', VNone), (''seen_at'', VNone)]])],
      next_id = 2\<rparr>"

definition cat_store :: store where
  "cat_store =
     \<lparr>db = Working,
      colls =
        [(''cat'',
          [[(''_id'', VObjectId ''000000000000000000000000''),
            (''name'', VStr ''Tom''), (''description'', VStr ''Friendly tabby''),
            (''last_known_lat'', VNone), (''last_known_lng'', VNone),
            (''status'', VStr ''unknown''), (''colony'', VNone), (''photo_url'', VNone)],
           [(''_id'', VObjectId ''000000000000000000000001''),
            (''name'', VStr ''abc''), (''description'', VNone),
            (''last_known_lat'', VNone), (''last_known_lng'', VNone),
            (''status'', VStr ''unknown''), (''colony'', VNone), (''photo_url'', VNone)]])],
      next_id = 2\<rparr>"



fun num_of :: "val \<Rightarrow> pyfloat option" where
  "num_of (VFloat x) = Some x"
| "num_of (VInt i) = Some (Num (of_int i))"
| "num_of v = None"

section \<open>Collection names\<close>

text \<open>
  C8: the collection name of each of the nine resource types is the lowercase form of
  its class name, and the nine names are pairwise distinct.
\<close>

theorem collection_name_lowercase_distinct:
  "map collection_name [User, Cat, Sighting, Place, Post, Emergency, Report, Badge, Article]
     = [''user'', ''cat'', ''sighting'', ''place'', ''post'', ''emergency'', ''report'',
        ''badge'', ''article'']
   \<and> distinct (map collection_name
         [User, Cat, Sighting, Place, Post, Emergency, Report, Badge, Article])"
  by (simp add: collection_name_def lower_def lower_char_def)

section \<open>Bounding boxes\<close>

lemma flt_lt_total: "a \<noteq> NaN \<Longrightarrow> b \<noteq> NaN \<Longrightarrow> flt_lt a b \<or> flt_lt b a \<or> a = b"
  by (cases a; cases b) auto

lemma flt_lt_asym: "flt_lt a b \<Longrightarrow> \<not> flt_lt b a"
  by (cases a; cases b) auto

lemma py_min_commute: "a \<noteq> NaN \<Longrightarrow> b \<noteq> NaN \<Longrightarrow> py_min a b = py_min b a"
  using flt_lt_total [of a b] flt_lt_asym [of a b] flt_lt_asym [of b a]
  by (auto simp: py_min_def)

lemma py_max_commute: "a \<noteq> NaN \<Longrightarrow> b \<noteq> NaN \<Longrightarrow> py_max a b = py_max b a"
  using flt_lt_total [of a b] flt_lt_asym [of a b] flt_lt_asym [of b a]
  by (auto simp: py_max_def)

lemma bbox_swap:
  assumes "a \<noteq> NaN" "b \<noteq> NaN" "c \<noteq> NaN" "d \<noteq> NaN"
  shows "bbox (Some a) (Some b) (Some c) (Some d) = bbox (Some c) (Some d) (Some a) (Some b)"
  using assms
  by (simp add: bbox_def py_min_commute [of c a] py_max_commute [of c a]
        py_min_commute [of d b] py_max_commute [of d b])

lemmas eval_defs = list_sightings_def list_cats_def Query_def truthy_def run_query_def
  get_documents_def bbox_def py_min_def py_max_def collection_name_def lower_def lower_char_def
  docs_of_def clause_holds_def to_public_def py_str_def

text \<open>
  C3, as the claim states it, fails when a corner coordinate is NaN (the query string
  \<open>ne_lat=nan\<close> parses to one): \<open>min\<close> and \<open>max\<close> keep their first argument
  when a comparison with NaN is false, so the two corner orders build different ranges.
  With ne = (NaN, 0), sw = (5, 0) the range of latitudes is [5, 5] and the sighting at
  latitude 5 is returned; with the corners swapped the range is [NaN, NaN] and nothing
  is returned.
\<close>

theorem bbox_corner_order_nan_counterexample:
  "list_sightings example_libs sighting_store
     (Some NaN) (Some (Num 0)) (Some (Num 5)) (Some (Num 0)) None None
   \<noteq> list_sightings example_libs sighting_store
     (Some (Num 5)) (Some (Num 0)) (Some NaN) (Some (Num 0)) None None"
  by (simp add: eval_defs sighting_store_def example_libs_def)

text \<open>
  C3, amended: for every store, limit and status, and all corner coordinates none of
  which is NaN, the Sighting list call with ne = (a, b), sw = (c, d) returns the same
  result as the call with ne = (c, d), sw = (a, b); the filter is the range
  [min, max] of the two latitudes and of the two longitudes, and min is at most max.
\<close>

theorem bbox_corner_order:
  assumes "a \<noteq> NaN" "b \<noteq> NaN" "c \<noteq> NaN" "d \<noteq> NaN"
  shows "list_sightings L st (Some a) (Some b) (Some c) (Some d) limit status
         = list_sightings L st (Some c) (Some d) (Some a) (Some b) limit status
         \<and> bbox (Some a) (Some b) (Some c) (Some d)
           = [(''lat'', Range (py_min c a) (py_max c a)),
              (''lng'', Range (py_min d b) (py_max d b))]
         \<and> flt_le (py_min c a) (py_max c a) \<and> flt_le (py_min d b) (py_max d b)"
proof -
  have le: "flt_le (py_min x y) (py_max x y)" if "x \<noteq> NaN" "y \<noteq> NaN" for x y
    using that by (cases x; cases y) (auto simp: py_min_def py_max_def)
  have "list_sightings L st (Some a) (Some b) (Some c) (Some d) limit status
        = list_sightings L st (Some c) (Some d) (Some a) (Some b) limit status"
    unfolding list_sightings_def bbox_swap [OF assms] by (rule refl)
  moreover have "bbox (Some a) (Some b) (Some c) (Some d)
        = [(''lat'', Range (py_min c a) (py_max c a)),
           (''lng'', Range (py_min d b) (py_max d b))]"
    by (simp add: bbox_def)
  ultimately show ?thesis
    using le [of c a] le [of d b] assms by simp
qed

theorem bbox_corner_order_witness:
  "list_sightings example_libs sighting_store
     (Some (Num 10)) (Some (Num 10)) (Some (Num (- 5))) (Some (Num (- 5))) None None
   = list_sightings example_libs sighting_store
     (Some (Num (- 5))) (Some (Num (- 5))) (Some (Num 10)) (Some (Num 10)) None None
   \<and> bbox (Some (Num 10)) (Some (Num 10)) (Some (Num (- 5))) (Some (Num (- 5)))
     = [(''lat'', Range (Num (- 5)) (Num 10)), (''lng'', Range (Num (- 5)) (Num 10))]"
  using bbox_corner_order [of "Num 10" "Num 10" "Num (- 5)" "Num (- 5)"
      example_libs sighting_store None None]
  by (simp add: py_min_def py_max_def)

text \<open>
  C6, as the claim states it, fails: a request that supplies only \<open>ne_lat\<close> is not
  rejected. It is executed without a bounding box, and both stored sightings are
  returned, the one at latitude 50 included.
\<close>

theorem partial_bbox_not_rejected:
  "list_sightings example_libs sighting_store (Some (Num 10)) None None None None None
   = Inr [[(''cat_id'', VNone), (''lat'', VFloat (Num 5)), (''lng'', VFloat (Num 0)),
           (''note'', VNone), (''photo_url'', VNone), (''status'', VStr ''normal''),
           (''created_by'', VNone), (''seen_at'', VNone),
           (''id'', VStr ''000000000000000000000000'')],
          [(''cat_id'', VNone), (''lat'', VFloat (Num 50)), (''lng'', VFloat (Num 60)),
           (''note'', VNone), (''photo_url'', VNone), (''status'', VStr ''urgent''),
           (''created_by'', VNone), (''seen_at'', VNone),
           (''id'', VStr ''000000000000000000000001'')]]"
  by (simp add: eval_defs sighting_store_def example_libs_def)

text \<open>
  C6, amended: the bounding-box filter is applied only when all four corner parameters
  are supplied. A Sighting list request that leaves out at least one of them is
  accepted and gives, for every store, the result of the same request with no corner
  parameter at all.
\<close>

theorem partial_bbox_ignored:
  assumes "ne_lat = None \<or> ne_lng = None \<or> sw_lat = None \<or> sw_lng = None"
  shows "list_sightings L st ne_lat ne_lng sw_lat sw_lng limit status
         = list_sightings L st None None None None limit status"
proof -
  have eq: "bbox ne_lat ne_lng sw_lat sw_lng = bbox None None None None"
    using assms by (auto simp: bbox_def split: option.splits)
  show ?thesis
    unfolding list_sightings_def eq by (rule refl)
qed

theorem partial_bbox_ignored_witness:
  "list_sightings example_libs sighting_store (Some (Num 10)) (Some (Num 10)) None
     (Some (Num (- 5))) (Some 7) (Some ''urgent'')
   = list_sightings example_libs sighting_store None None None None (Some 7) (Some ''urgent'')"
  using partial_bbox_ignored [of "Some (Num 10)" "Some (Num 10)" None "Some (Num (- 5))"
      example_libs sighting_store "Some 7" "Some ''urgent''"]
  by simp

section \<open>Empty filter parameters\<close>

text \<open>
  C10: a list request whose optional filter parameter (\<open>q\<close> on Cat, \<open>status\<close> on
  Sighting and Emergency, \<open>category\<close> on Place) is the empty string gives, for every
  store, the result of the same request with the parameter omitted.
\<close>

theorem empty_filter_same_as_omitted:
  "list_cats L st (Some []) limit = list_cats L st None limit
   \<and> list_sightings L st a b c d limit (Some []) = list_sightings L st a b c d limit None
   \<and> list_emergencies L st (Some []) limit = list_emergencies L st None limit
   \<and> list_places L st (Some []) limit = list_places L st None limit"
  by (simp add: list_cats_def list_sightings_def list_emergencies_def list_places_def truthy_def)

section \<open>Limits\<close>

lemma run_query_length: "run_query L st m f n = Inr docs \<Longrightarrow> length docs \<le> nat n"
  by (auto simp: run_query_def get_documents_def split: sum.splits conn.splits if_splits)

lemma run_query_not_validation: "run_query L st m f n \<noteq> Inl (RequestValidationError es)"
  by (auto simp: run_query_def get_documents_def split: sum.splits conn.splits if_splits)

lemma run_query_working:
  "db st = Working \<Longrightarrow> filt_ok L f \<Longrightarrow> \<exists>docs. run_query L st m f n = Inr docs"
  by (simp add: run_query_def get_documents_def)

text \<open>
  C4: the Cat list operation rejects \<open>limit=0\<close> and \<open>limit=201\<close> for every store
  (a disconnected one included, so before any query); \<open>limit=1\<close> and \<open>limit=200\<close> are
  never a validation error and succeed on a working store whose engine accepts the
  search pattern; an omitted limit is 50; and whenever a request with limit \<open>n\<close>
  returns an array, \<open>n\<close> is within 1..200 and the array has at most \<open>n\<close> elements.
\<close>

theorem list_cats_limit:
  "list_cats L st q (Some 0) = Inl (RequestValidationError [''limit''])
   \<and> list_cats L st q (Some 201) = Inl (RequestValidationError [''limit''])
   \<and> (\<forall>es. list_cats L st q (Some 1) \<noteq> Inl (RequestValidationError es))
   \<and> (\<forall>es. list_cats L st q (Some 200) \<noteq> Inl (RequestValidationError es))
   \<and> (db st = Working \<and> (truthy q \<longrightarrow> regex_compile L (the q) ''i'' \<noteq> None) \<longrightarrow>
        (\<exists>docs. list_cats L st q (Some 1) = Inr docs \<and> length docs \<le> 1) \<and>
        (\<exists>docs. list_cats L st q (Some 200) = Inr docs \<and> length docs \<le> 200))
   \<and> list_cats L st q None = list_cats L st q (Some 50)
   \<and> (\<forall>n docs. list_cats L st q (Some n) = Inr docs \<longrightarrow>
         1 \<le> n \<and> n \<le> 200 \<and> length docs \<le> nat n)"
proof -
  let ?f = "if truthy q
            then Or [[(''name'', Regex (the q) ''i'')], [(''description'', Regex (the q) ''i'')]]
            else Clause []"
  have acc: "list_cats L st q (Some n) = run_query L st Cat ?f n" if "1 \<le> n" "n \<le> 200" for n
    using that by (simp add: list_cats_def Query_def)
  have rej: "list_cats L st q (Some n) = Inl (RequestValidationError [''limit''])"
    if "n < 1 \<or> 200 < n" for n
    using that by (auto simp: list_cats_def Query_def)
  have ok: "filt_ok L ?f" if "truthy q \<longrightarrow> regex_compile L (the q) ''i'' \<noteq> None"
    using that by simp
  have succ: "\<exists>docs. list_cats L st q (Some n) = Inr docs \<and> length docs \<le> nat n"
    if "1 \<le> n" "n \<le> 200" "db st = Working"
       "truthy q \<longrightarrow> regex_compile L (the q) ''i'' \<noteq> None" for n
    using run_query_working [OF that(3) ok [OF that(4)], of Cat n] run_query_length [of L st Cat ?f n]
    by (auto simp: acc [OF that(1,2)])
  have cap: "1 \<le> n \<and> n \<le> 200 \<and> length docs \<le> nat n"
    if "list_cats L st q (Some n) = Inr docs" for n docs
  proof (cases "1 \<le> n \<and> n \<le> 200")
    case True
    then show ?thesis using that run_query_length [of L st Cat ?f n docs] by (simp add: acc)
  next
    case False
    then show ?thesis using that rej [of n] by auto
  qed
  have dflt: "list_cats L st q None = list_cats L st q (Some 50)"
    by (simp add: list_cats_def Query_def)
  have v1: "\<forall>es. list_cats L st q (Some 1) \<noteq> Inl (RequestValidationError es)"
    by (simp add: acc run_query_not_validation)
  have v200: "\<forall>es. list_cats L st q (Some 200) \<noteq> Inl (RequestValidationError es)"
    by (simp add: acc run_query_not_validation)
  have s12: "db st = Working \<and> (truthy q \<longrightarrow> regex_compile L (the q) ''i'' \<noteq> None) \<longrightarrow>
        (\<exists>docs. list_cats L st q (Some 1) = Inr docs \<and> length docs \<le> 1) \<and>
        (\<exists>docs. list_cats L st q (Some 200) = Inr docs \<and> length docs \<le> 200)"
    using succ [of 1] succ [of 200] by simp
  have r0: "list_cats L st q (Some 0) = Inl (RequestValidationError [''limit''])"
    using rej [of 0] by simp
  have r201: "list_cats L st q (Some 201) = Inl (RequestValidationError [''limit''])"
    using rej [of 201] by simp
  from r0 r201 v1 v200 s12 dflt cap show ?thesis
    by blast
qed

theorem list_cats_limit_witness:
  "list_cats example_libs cat_store (Some ''tabby'') (Some 0)
     = Inl (RequestValidationError [''limit''])
   \<and> db cat_store = Working
   \<and> regex_compile example_libs ''tabby'' ''i'' \<noteq> None
   \<and> list_cats example_libs cat_store None (Some 1)
     = Inr [[(''name'', VStr ''Tom''), (''description'', VStr ''Friendly tabby''),
             (''last_known_lat'', VNone), (''last_known_lng'', VNone),
             (''status'', VStr ''unknown''), (''colony'', VNone), (''photo_url'', VNone),
             (''id'', VStr ''000000000000000000000000'')]]"
proof -
  note t = list_cats_limit [of example_libs cat_store "Some ''tabby''"]
  have 1: "list_cats example_libs cat_store (Some ''tabby'') (Some 0)
           = Inl (RequestValidationError [''limit''])"
    using t by (rule conjunct1)
  have 2: "db cat_store = Working"
    by (simp add: cat_store_def)
  have 3: "regex_compile example_libs ''tabby'' ''i'' \<noteq> None"
    by (simp add: example_libs_def dot_engine_def)
  have 4: "list_cats example_libs cat_store None (Some 1)
     = Inr [[(''name'', VStr ''Tom''), (''description'', VStr ''Friendly tabby''),
             (''last_known_lat'', VNone), (''last_known_lng'', VNone),
             (''status'', VStr ''unknown''), (''colony'', VNone), (''photo_url'', VNone),
             (''id'', VStr ''000000000000000000000000'')]]"
    by (simp add: eval_defs cat_store_def example_libs_def)
  from 1 2 3 4 show ?thesis by simp
qed

section \<open>Public records\<close>

lemma to_public_fields:
  assumes "map_of d ''_id'' = Some v"
  shows "map_of (to_public L d) ''id'' = Some (VStr (py_str L v))"
    and "map_of (to_public L d) ''_id'' = None"
    and "k \<noteq> ''id'' \<Longrightarrow> k \<noteq> ''_id'' \<Longrightarrow> map_of (to_public L d) k = map_of d k"
proof -
  from assms have "d \<noteq> []" by auto
  then have eq: "to_public L d = AList.update ''id'' (VStr (py_str L v)) (AList.delete ''_id'' d)"
    using assms by (simp add: to_public_def)
  show "map_of (to_public L d) ''id'' = Some (VStr (py_str L v))"
    by (simp add: eq update_conv')
  show "map_of (to_public L d) ''_id'' = None"
    by (simp add: eq update_conv' delete_conv')
  show "map_of (to_public L d) k = map_of d k" if "k \<noteq> ''id''" "k \<noteq> ''_id''"
    using that by (simp add: eq update_conv' delete_conv')
qed

lemma run_query_sources:
  assumes "run_query L st m f n = Inr rs" "r \<in> set rs"
  shows "\<exists>d \<in> set (docs_of st (collection_name m)). r = to_public L d"
proof -
  from assms(1) obtain docs where g: "get_documents L st (collection_name m) f n = Inr docs"
    and rs: "rs = map (to_public L) docs"
    by (auto simp: run_query_def split: sum.splits)
  from g have "set docs \<subseteq> set (docs_of st (collection_name m))"
    by (auto simp: get_documents_def split: conn.splits if_splits dest: in_set_takeD)
  with rs assms(2) show ?thesis by auto
qed

lemma query_then:
  "(case Query x y z given of Inl e \<Rightarrow> Inl e | Inr n \<Rightarrow> g n) = Inr rs \<Longrightarrow> \<exists>n. g n = Inr rs"
  by (cases "Query x y z given") auto

lemma handle_get_runs:
  assumes "handle_get L st req = Inr rs"
  shows "\<exists>f n. run_query L st (listed req) f n = Inr rs"
proof (cases req)
  case (GetCats q limit)
  with assms show ?thesis
    using query_then [where x = 50 and y = 1 and z = 200 and given = limit and rs = rs] by (fastforce simp: list_cats_def)
next
  case (GetSightings a b c d limit status)
  with assms show ?thesis
    using query_then [where x = 100 and y = 1 and z = 500 and given = limit and rs = rs] by (fastforce simp: list_sightings_def)
next
  case (GetPlaces category limit)
  with assms show ?thesis
    using query_then [where x = 100 and y = 1 and z = 300 and given = limit and rs = rs] by (fastforce simp: list_places_def)
next
  case (GetPosts limit)
  with assms show ?thesis
    using query_then [where x = 50 and y = 1 and z = 200 and given = limit and rs = rs] by (fastforce simp: list_posts_def)
next
  case (GetEmergencies status limit)
  with assms show ?thesis
    using query_then [where x = 50 and y = 1 and z = 200 and given = limit and rs = rs] by (fastforce simp: list_emergencies_def)
next
  case (GetBadges limit)
  with assms show ?thesis
    using query_then [where x = 100 and y = 1 and z = 500 and given = limit and rs = rs] by (fastforce simp: list_badges_def)
next
  case (GetArticles limit)
  with assms show ?thesis
    using query_then [where x = 50 and y = 1 and z = 200 and given = limit and rs = rs] by (fastforce simp: list_articles_def)
qed

lemma handle_get_sources:
  assumes "handle_get L st req = Inr rs" "r \<in> set rs"
  shows "\<exists>d \<in> set (docs_of st (collection_name (listed req))). r = to_public L d"
  using handle_get_runs [OF assms(1)] run_query_sources [OF _ assms(2)] by blast

lemma wf_store_doc:
  assumes "wf_store st" "d \<in> set (docs_of st c)"
  shows "\<exists>h. map_of d ''_id'' = Some (VObjectId h)"
proof (cases "map_of (colls st) c")
  case None
  with assms(2) show ?thesis by (simp add: docs_of_def)
next
  case (Some ds)
  with assms(2) have "d \<in> set ds" by (simp add: docs_of_def)
  moreover from Some have "(c, ds) \<in> set (colls st)" by (rule map_of_SomeD)
  ultimately show ?thesis
    using assms(1) by (auto simp: wf_store_def list_all_iff)
qed

text \<open>
  C7: every record returned by a list operation on a store whose documents carry their
  store-assigned identifier comes from a stored document of the listed collection; it
  holds that identifier's text as a string under \<open>id\<close>, has no \<open>_id\<close> field, and
  agrees with the stored document on every other field.
\<close>

theorem listed_records_public:
  assumes "wf_store st" "handle_get L st req = Inr rs" "r \<in> set rs"
  shows "\<exists>d h. d \<in> set (docs_of st (collection_name (listed req)))
           \<and> map_of d ''_id'' = Some (VObjectId h)
           \<and> map_of r ''id'' = Some (VStr h)
           \<and> map_of r ''_id'' = None
           \<and> (\<forall>k. k \<noteq> ''id'' \<and> k \<noteq> ''_id'' \<longrightarrow> map_of r k = map_of d k)"
proof -
  from handle_get_sources [OF assms(2,3)] obtain d
    where d: "d \<in> set (docs_of st (collection_name (listed req)))" and r: "r = to_public L d"
    by blast
  from wf_store_doc [OF assms(1) d] obtain h where h: "map_of d ''_id'' = Some (VObjectId h)"
    by blast
  have "map_of r ''id'' = Some (VStr h)"
    using to_public_fields(1) [OF h, of L] by (simp add: r py_str_def)
  moreover have "map_of r ''_id'' = None"
    using to_public_fields(2) [OF h, of L] by (simp add: r)
  moreover have "\<forall>k. k \<noteq> ''id'' \<and> k \<noteq> ''_id'' \<longrightarrow> map_of r k = map_of d k"
    using to_public_fields(3) [OF h, of _ L] by (simp add: r)
  ultimately show ?thesis using d h by blast
qed

lemma wf_empty_store: "wf_store empty_store"
  by (simp add: wf_store_def empty_store_def)

lemma set_update_subset: "set (AList.update k v al) \<subseteq> insert (k, v) (set al)"
  by (induction al) auto

lemma wf_storeI:
  assumes "\<And>c ds d. (c, ds) \<in> set (colls st) \<Longrightarrow> d \<in> set ds
             \<Longrightarrow> \<exists>h. map_of d ''_id'' = Some (VObjectId h)"
  shows "wf_store st"
  using assms by (auto simp: wf_store_def list_all_iff)

lemma wf_create_document:
  assumes "wf_store st"
  shows "wf_store (snd (create_document st c data))"
proof (cases "db st")
  case Working
  let ?d = "(''_id'', VObjectId (new_oid (next_id st))) # data"
  let ?st = "st\<lparr>colls := AList.update c (docs_of st c @ [?d]) (colls st),
                 next_id := Suc (next_id st)\<rparr>"
  have "wf_store ?st"
  proof (rule wf_storeI)
    fix c' ds d
    assume in_colls: "(c', ds) \<in> set (colls ?st)" and d: "d \<in> set ds"
    then have "(c', ds) = (c, docs_of st c @ [?d]) \<or> (c', ds) \<in> set (colls st)"
      using set_update_subset [of c "docs_of st c @ [?d]" "colls st"] by auto
    then show "\<exists>h. map_of d ''_id'' = Some (VObjectId h)"
    proof
      assume "(c', ds) = (c, docs_of st c @ [?d])"
      with d have "d \<in> set (docs_of st c) \<or> d = ?d" by auto
      then show ?thesis using wf_store_doc [OF assms, of d c] by auto
    next
      assume "(c', ds) \<in> set (colls st)"
      with d assms show ?thesis by (auto simp: wf_store_def list_all_iff)
    qed
  qed
  then show ?thesis
    using Working by (simp add: create_document_def Let_def)
qed (use assms in \<open>simp_all add: create_document_def\<close>)


theorem listed_records_public_witness:
  "wf_store cat_store
   \<and> handle_get example_libs cat_store (GetCats None None)
     = Inr [[(''name'', VStr ''Tom''), (''description'', VStr ''Friendly tabby''),
             (''last_known_lat'', VNone), (''last_known_lng'', VNone),
             (''status'', VStr ''unknown''), (''colony'', VNone), (''photo_url'', VNone),
             (''id'', VStr ''000000000000000000000000'')],
            [(''name'', VStr ''abc''), (''description'', VNone),
             (''last_known_lat'', VNone), (''last_known_lng'', VNone),
             (''status'', VStr ''unknown''), (''colony'', VNone), (''photo_url'', VNone),
             (''id'', VStr ''000000000000000000000001'')]]
   \<and> (\<exists>d h. d \<in> set (docs_of cat_store (collection_name Cat))
         \<and> map_of d ''_id'' = Some (VObjectId h)
         \<and> map_of [(''name'', VStr ''abc''), (''description'', VNone),
                    (''last_known_lat'', VNone), (''last_known_lng'', VNone),
                    (''status'', VStr ''unknown''), (''colony'', VNone), (''photo_url'', VNone),
                    (''id'', VStr ''000000000000000000000001'')] ''id'' = Some (VStr h)
         \<and> map_of d ''name'' = Some (VStr ''abc''))"
proof -
  let ?r1 = "[(''name'', VStr ''Tom''), (''description'', VStr ''Friendly tabby''),
             (''last_known_lat'', VNone), (''last_known_lng'', VNone),
             (''status'', VStr ''unknown''), (''colony'', VNone), (''photo_url'', VNone),
             (''id'', VStr ''000000000000000000000000'')]"
  let ?r2 = "[(''name'', VStr ''abc''), (''description'', VNone),
             (''last_known_lat'', VNone), (''last_known_lng'', VNone),
             (''status'', VStr ''unknown''), (''colony'', VNone), (''photo_url'', VNone),
             (''id'', VStr ''000000000000000000000001'')]"
  have w: "wf_store cat_store"
    by (simp add: wf_store_def cat_store_def)
  have g: "handle_get example_libs cat_store (GetCats None None) = Inr [?r1, ?r2]"
    by (simp add: eval_defs cat_store_def example_libs_def)
  have m: "?r2 \<in> set [?r1, ?r2]"
    by simp
  from listed_records_public [OF w g m] obtain d h
    where d: "d \<in> set (docs_of cat_store (collection_name (listed (GetCats None None))))"
      and oid: "map_of d ''_id'' = Some (VObjectId h)"
      and rid: "map_of ?r2 ''id'' = Some (VStr h)"
      and rest: "\<forall>k. k \<noteq> ''id'' \<and> k \<noteq> ''_id'' \<longrightarrow> map_of ?r2 k = map_of d k"
    by blast
  from rest have "map_of ?r2 ''name'' = map_of d ''name''"
    by (rule allE [of _ "''name''"]) simp
  then have name: "map_of d ''name'' = Some (VStr ''abc'')"
    by simp
  from d have d': "d \<in> set (docs_of cat_store (collection_name Cat))"
    by simp
  from d' oid rid name w g show ?thesis
    by blast
qed

section \<open>The probe never raises\<close>

text \<open>
  C9: for every state of the store connection and every environment the probe returns
  a response and raises nothing. The response has the six keys, the five status
  fields are strings, and the \<open>database\<close> field tells the failure: not available
  without a connection, the first 80 code points of the store's error message when
  listing the collections fails.
\<close>

theorem test_database_never_raises:
  "\<exists>resp. test_database st env = Inr resp
     \<and> map fst resp = [''backend'', ''database'', ''database_url'', ''database_name'',
                       ''connection_status'', ''collections'']
     \<and> list_all (\<lambda>k. is_str (attr resp k))
          [''backend'', ''database'', ''database_url'', ''database_name'', ''connection_status'']
     \<and> attr resp ''database''
       = VStr (case db st of
                 NoConnection \<Rightarrow> cross_mark @ '' Not Available''
               | Failing msg \<Rightarrow> warning_sign @ ''  Connected but Error: '' @ py_prefix 80 msg
               | Working \<Rightarrow> check_mark @ '' Connected & Working'')
     \<and> attr resp ''collections''
       = VList (case db st of Working \<Rightarrow> map VStr (map fst (colls st)) | _ \<Rightarrow> [])"
proof (cases "db st")
  case NoConnection
  then show ?thesis
    by (simp add: test_database_def attr_def)
next
  case (Failing msg)
  then show ?thesis
    by (simp add: test_database_def attr_def list_collection_names_def)
next
  case Working
  then show ?thesis
    by (simp add: test_database_def attr_def list_collection_names_def)
qed

theorem test_database_never_raises_witness:
  "\<exists>resp. test_database \<lparr>db = Failing ''boom'', colls = [], next_id = 0\<rparr> [] = Inr resp
     \<and> attr resp ''database'' = VStr (warning_sign @ ''  Connected but Error: boom'')"
proof -
  have "py_prefix 80 ''boom'' = ''boom''"
    by (simp add: is_cont_def)
  then show ?thesis
    using test_database_never_raises [of "\<lparr>db = Failing ''boom'', colls = [], next_id = 0\<rparr>" "[]"]
    by auto
qed

text \<open>
  The prefix counts code points, not bytes: of three two-byte characters (U+00E9
  each), the first two are kept, four bytes.
\<close>

lemma py_prefix_code_points:
  "py_prefix 2 [CHR 0xC3, CHR 0xA9, CHR 0xC3, CHR 0xA9, CHR 0xC3, CHR 0xA9]
     = [CHR 0xC3, CHR 0xA9, CHR 0xC3, CHR 0xA9]
   \<and> py_len [CHR 0xC3, CHR 0xA9, CHR 0xC3, CHR 0xA9, CHR 0xC3, CHR 0xA9] = 3"
  by (simp add: is_cont_def py_len_def)

section \<open>Coordinates are validated before persistence\<close>

lemma validate_fails:
  "f \<in> set fs \<Longrightarrow> check_field L body f = None
   \<Longrightarrow> \<exists>es. validate L body fs = Inl es \<and> fname f \<in> set es"
proof (induction fs)
  case Nil
  then show ?case by simp
next
  case (Cons g fs)
  show ?case
  proof (cases "f = g")
    case True
    with Cons.prems show ?thesis
      by (cases "validate L body fs") auto
  next
    case False
    with Cons obtain es where "validate L body fs = Inl es" "fname f \<in> set es" by auto
    then show ?thesis
      by (cases "check_field L body g") auto
  qed
qed
















lemma hex_digit_0: "hex_digit 0 = CHR ''0''"
  by (simp add: hex_digit_def)

lemma hex_digits_0: "hex_digits k 0 = replicate k CHR ''0''"
  by (induction k) (simp_all add: hex_digit_0 replicate_append_same)

lemma new_oid_0: "new_oid 0 = ''000000000000000000000000''"
  by (simp add: new_oid_def hex_digits_0 eval_nat_numeral)



section \<open>Signup\<close>

lemma collection_name_User: "collection_name User = ''user''"
  by (simp add: collection_name_def lower_def lower_char_def)

lemma docs_of_update:
  "docs_of (st\<lparr>colls := AList.update c ds (colls st), next_id := n\<rparr>) c'
     = (if c' = c then ds else docs_of st c')"
  by (simp add: docs_of_def update_conv')

lemma map_of_extra:
  assumes "k \<notin> fst ` set extra"
  shows "map_of (extra @ body) k = map_of body k"
proof -
  from assms have "map_of extra k = None" by (simp add: map_of_eq_None_iff)
  then show ?thesis by (simp add: map_add_def)
qed

lemma signup_extra:
  assumes "\<forall>k \<in> fst ` set extra. k \<in> {''role'', ''points'', ''badges'', ''is_active''}"
  shows "signup L st (extra @ body) = signup L st body"
proof -
  have "map_of (extra @ body) k = map_of body k"
    if "k \<in> {''email'', ''nickname'', ''avatar_url''}" for k
  proof (rule map_of_extra)
    show "k \<notin> fst ` set extra" using assms that by auto
  qed
  then have "validate L (extra @ body) SignupPayload = validate L body SignupPayload"
    by (simp add: SignupPayload_def check_field_def)
  then show ?thesis by (simp add: signup_def)
qed

lemma signup_missing_email:
  assumes "map_of body ''email'' = None"
  shows "\<exists>es. signup L st body = (Inl (RequestValidationError es), st) \<and> ''email'' \<in> set es"
proof -
  have "check_field L body (Field ''email'' (TStr None) False Required) = None"
    using assms by (simp add: check_field_def)
  from validate_fails [of _ SignupPayload, OF _ this]
  obtain es where "validate L body SignupPayload = Inl es" "''email'' \<in> set es"
    by (auto simp: SignupPayload_def)
  then show ?thesis by (simp add: signup_def)
qed

lemma signup_stores:
  assumes e: "map_of body ''email'' = Some (VStr e)"
    and n: "map_of body ''nickname'' = Some (VStr n)" "py_len n \<le> 40"
    and a: "map_of body ''avatar_url'' = None \<or> map_of body ''avatar_url'' = Some VNone
            \<or> (\<exists>u. map_of body ''avatar_url'' = Some (VStr u) \<and> parse_url L u \<noteq> None)"
    and db: "db st = Working"
  shows "\<exists>a'. signup L st body =
           (Inr [(''id'', VStr (new_oid (next_id st)))],
            st\<lparr>colls := AList.update ''user''
                   (docs_of st ''user'' @
                    [[(''_id'', VObjectId (new_oid (next_id st))),
                      (''email'', VStr e), (''nickname'', VStr n), (''avatar_url'', a'),
                      (''bio'', VNone), (''role'', VStr ''user''), (''points'', VInt 0),
                      (''badges'', VList []), (''is_active'', VBool True)]])
                   (colls st),
                next_id := Suc (next_id st)\<rparr>)"
proof -
  from a obtain x x' where
    x: "map_of body ''avatar_url'' = None \<and> x = VNone
        \<or> map_of body ''avatar_url'' = Some VNone \<and> x = VNone
        \<or> (\<exists>u. map_of body ''avatar_url'' = Some (VStr u) \<and> x = VStr u)"
    and x': "x = VNone \<and> x' = VNone \<or> (\<exists>u u'. x = VStr u \<and> parse_url L u = Some u' \<and> x' = VStr u')"
    by fastforce
  from x have p: "validate L body SignupPayload
           = Inr [(''email'', VStr e), (''nickname'', VStr n), (''avatar_url'', x)]"
    using e n(1) by (auto simp: SignupPayload_def check_field_def)
  from x' n(2) have u: "validate L
            [(''email'', VStr e), (''nickname'', VStr n), (''avatar_url'', x), (''bio'', VNone),
             (''role'', VStr ''user''), (''points'', VInt 0), (''badges'', VList []),
             (''is_active'', VBool True)]
            (model_fields User)
         = Inr [(''email'', VStr e), (''nickname'', VStr n), (''avatar_url'', x'), (''bio'', VNone),
             (''role'', VStr ''user''), (''points'', VInt 0), (''badges'', VList []),
             (''is_active'', VBool True)]"
    by (auto simp: check_field_def)
  have at: "attr [(''email'', VStr e), (''nickname'', VStr n), (''avatar_url'', x)] ''email'' = VStr e"
    "attr [(''email'', VStr e), (''nickname'', VStr n), (''avatar_url'', x)] ''nickname'' = VStr n"
    "attr [(''email'', VStr e), (''nickname'', VStr n), (''avatar_url'', x)] ''avatar_url'' = x"
    by (simp_all add: attr_def)
  have "signup L st body =
          (case create_document st (collection_name User)
                  [(''email'', VStr e), (''nickname'', VStr n), (''avatar_url'', x'),
                   (''bio'', VNone), (''role'', VStr ''user''), (''points'', VInt 0),
                   (''badges'', VList []), (''is_active'', VBool True)] of
             (Inl e, st') \<Rightarrow> (Inl e, st')
           | (Inr uid, st') \<Rightarrow> (Inr [(''id'', VStr uid)], st'))"
    by (simp only: signup_def p sum.case at u)
  then have "signup L st body =
           (Inr [(''id'', VStr (new_oid (next_id st)))],
            st\<lparr>colls := AList.update ''user''
                   (docs_of st ''user'' @
                    [[(''_id'', VObjectId (new_oid (next_id st))),
                      (''email'', VStr e), (''nickname'', VStr n), (''avatar_url'', x'),
                      (''bio'', VNone), (''role'', VStr ''user''), (''points'', VInt 0),
                      (''badges'', VList []), (''is_active'', VBool True)]])
                   (colls st),
                next_id := Suc (next_id st)\<rparr>)"
    by (simp add: create_document_def db collection_name_User Let_def)
  then show ?thesis by (rule exI [of _ x'])
qed

text \<open>
  C2: \<open>signup\<close>, for every store. A body with no \<open>email\<close> key is rejected with a
  request validation error that names the field, and the store is returned unchanged.
  A body whose \<open>email\<close> and \<open>nickname\<close> are strings, the nickname of at most 40
  characters (the bound of \<open>User.nickname\<close>), whose \<open>avatar_url\<close> is absent, null
  or a string the URL parser accepts, sent to a store that accepts the write, is
  answered with an identifier; the user collection gains exactly one document at its
  end, no other collection changes, and that document carries the identifier, the
  email and the nickname sent, and \<open>role = "user"\<close>, \<open>points = 0\<close>, \<open>badges = []\<close>,
  \<open>is_active = true\<close>. The body is arbitrary otherwise: adding the keys \<open>role\<close>,
  \<open>points\<close>, \<open>badges\<close> or \<open>is_active\<close> to a body, with any values, changes neither
  the answer nor the resulting store.
\<close>

theorem signup_creates_user:
  "(map_of body ''email'' = None
      \<longrightarrow> (\<exists>es. signup L st body = (Inl (RequestValidationError es), st) \<and> ''email'' \<in> set es))
   \<and> (\<forall>e n. map_of body ''email'' = Some (VStr e) \<and> map_of body ''nickname'' = Some (VStr n)
          \<and> py_len n \<le> 40
          \<and> (map_of body ''avatar_url'' = None \<or> map_of body ''avatar_url'' = Some VNone
             \<or> (\<exists>u. map_of body ''avatar_url'' = Some (VStr u) \<and> parse_url L u \<noteq> None))
          \<and> db st = Working
        \<longrightarrow> (\<exists>uid d. fst (signup L st body) = Inr [(''id'', VStr uid)]
              \<and> docs_of (snd (signup L st body)) ''user'' = docs_of st ''user'' @ [d]
              \<and> (\<forall>c. c \<noteq> ''user'' \<longrightarrow> docs_of (snd (signup L st body)) c = docs_of st c)
              \<and> map_of d ''_id'' = Some (VObjectId uid)
              \<and> map_of d ''email'' = Some (VStr e)
              \<and> map_of d ''nickname'' = Some (VStr n)
              \<and> map_of d ''role'' = Some (VStr ''user'')
              \<and> map_of d ''points'' = Some (VInt 0)
              \<and> map_of d ''badges'' = Some (VList [])
              \<and> map_of d ''is_active'' = Some (VBool True)))
   \<and> (\<forall>extra :: doc. (\<forall>k \<in> fst ` set extra. k \<in> {''role'', ''points'', ''badges'', ''is_active''})
        \<longrightarrow> signup L st (extra @ body) = signup L st body)"
proof (intro conjI allI impI)
  assume "map_of body ''email'' = None"
  then show "\<exists>es. signup L st body = (Inl (RequestValidationError es), st) \<and> ''email'' \<in> set es"
    by (rule signup_missing_email)
next
  fix e n
  assume h: "map_of body ''email'' = Some (VStr e) \<and> map_of body ''nickname'' = Some (VStr n)
          \<and> py_len n \<le> 40
          \<and> (map_of body ''avatar_url'' = None \<or> map_of body ''avatar_url'' = Some VNone
             \<or> (\<exists>u. map_of body ''avatar_url'' = Some (VStr u) \<and> parse_url L u \<noteq> None))
          \<and> db st = Working"
  from h have "\<exists>a'. signup L st body =
           (Inr [(''id'', VStr (new_oid (next_id st)))],
            st\<lparr>colls := AList.update ''user''
                   (docs_of st ''user'' @
                    [[(''_id'', VObjectId (new_oid (next_id st))),
                      (''email'', VStr e), (''nickname'', VStr n), (''avatar_url'', a'),
                      (''bio'', VNone), (''role'', VStr ''user''), (''points'', VInt 0),
                      (''badges'', VList []), (''is_active'', VBool True)]])
                   (colls st),
                next_id := Suc (next_id st)\<rparr>)"
    by (intro signup_stores) simp_all
  then obtain a' where s: "signup L st body =
           (Inr [(''id'', VStr (new_oid (next_id st)))],
            st\<lparr>colls := AList.update ''user''
                   (docs_of st ''user'' @
                    [[(''_id'', VObjectId (new_oid (next_id st))),
                      (''email'', VStr e), (''nickname'', VStr n), (''avatar_url'', a'),
                      (''bio'', VNone), (''role'', VStr ''user''), (''points'', VInt 0),
                      (''badges'', VList []), (''is_active'', VBool True)]])
                   (colls st),
                next_id := Suc (next_id st)\<rparr>)" ..
  let ?d = "[(''_id'', VObjectId (new_oid (next_id st))),
                      (''email'', VStr e), (''nickname'', VStr n), (''avatar_url'', a'),
                      (''bio'', VNone), (''role'', VStr ''user''), (''points'', VInt 0),
                      (''badges'', VList []), (''is_active'', VBool True)]"
  show "\<exists>uid d. fst (signup L st body) = Inr [(''id'', VStr uid)]
              \<and> docs_of (snd (signup L st body)) ''user'' = docs_of st ''user'' @ [d]
              \<and> (\<forall>c. c \<noteq> ''user'' \<longrightarrow> docs_of (snd (signup L st body)) c = docs_of st c)
              \<and> map_of d ''_id'' = Some (VObjectId uid)
              \<and> map_of d ''email'' = Some (VStr e)
              \<and> map_of d ''nickname'' = Some (VStr n)
              \<and> map_of d ''role'' = Some (VStr ''user'')
              \<and> map_of d ''points'' = Some (VInt 0)
              \<and> map_of d ''badges'' = Some (VList [])
              \<and> map_of d ''is_active'' = Some (VBool True)"
    by (rule exI [of _ "new_oid (next_id st)"], rule exI [of _ ?d])
      (simp add: s docs_of_update)
next
  fix extra :: doc
  assume "\<forall>k \<in> fst ` set extra. k \<in> {''role'', ''points'', ''badges'', ''is_active''}"
  then show "signup L st (extra @ body) = signup L st body"
    by (rule signup_extra)
qed


lemmas signup_defs = signup_def SignupPayload_def check_field_def attr_def create_document_def
  collection_name_User docs_of_def empty_store_def example_libs_def py_len_def is_cont_def

theorem signup_creates_user_witness:
  "signup example_libs empty_store [(''nickname'', VStr ''kit'')]
     = (Inl (RequestValidationError [''email'']), empty_store)
   \<and> (\<exists>es. signup example_libs empty_store [(''nickname'', VStr ''kit'')]
             = (Inl (RequestValidationError es), empty_store) \<and> ''email'' \<in> set es)
   \<and> signup example_libs empty_store
        [(''email'', VStr ''kit@example.org''), (''nickname'', VStr ''kit''),
         (''avatar_url'', VStr ''https://example.org/kit.png''),
         (''role'', VStr ''admin''), (''points'', VInt 9000),
         (''badges'', VList [VStr ''founder'']), (''is_active'', VBool False)]
     = (Inr [(''id'', VStr ''000000000000000000000000'')],
        \<lparr>db = Working,
         colls = [(''user'',
                   [[(''_id'', VObjectId ''000000000000000000000000''),
                     (''email'', VStr ''kit@example.org''), (''nickname'', VStr ''kit''),
                     (''avatar_url'', VStr ''https://example.org/kit.png''), (''bio'', VNone),
                     (''role'', VStr ''user''), (''points'', VInt 0), (''badges'', VList []),
                     (''is_active'', VBool True)]])],
         next_id = 1\<rparr>)
   \<and> (\<exists>uid d.
         fst (signup example_libs empty_store
               [(''email'', VStr ''kit@example.org''), (''nickname'', VStr ''kit''),
                (''avatar_url'', VStr ''https://example.org/kit.png''),
                (''role'', VStr ''admin''), (''points'', VInt 9000),
                (''badges'', VList [VStr ''founder'']), (''is_active'', VBool False)])
           = Inr [(''id'', VStr uid)]
         \<and> map_of d ''_id'' = Some (VObjectId uid)
         \<and> map_of d ''role'' = Some (VStr ''user'')
         \<and> map_of d ''points'' = Some (VInt 0)
         \<and> map_of d ''badges'' = Some (VList [])
         \<and> map_of d ''is_active'' = Some (VBool True))
   \<and> signup example_libs empty_store
        ([(''role'', VStr ''admin''), (''points'', VInt 9000)]
         @ [(''email'', VStr ''kit@example.org''), (''nickname'', VStr ''kit'')])
      = signup example_libs empty_store
          [(''email'', VStr ''kit@example.org''), (''nickname'', VStr ''kit'')]"
proof -
  let ?bad = "[(''nickname'', VStr ''kit'')]"
  let ?good = "[(''email'', VStr ''kit@example.org''), (''nickname'', VStr ''kit''),
         (''avatar_url'', VStr ''https://example.org/kit.png''),
         (''role'', VStr ''admin''), (''points'', VInt 9000),
         (''badges'', VList [VStr ''founder'']), (''is_active'', VBool False)]"
  let ?base = "[(''email'', VStr ''kit@example.org''), (''nickname'', VStr ''kit'')]"
  note bad = signup_creates_user [of ?bad example_libs empty_store]
  note good = signup_creates_user [of ?good example_libs empty_store]
  note base = signup_creates_user [of ?base example_libs empty_store]
  have 1: "signup example_libs empty_store ?bad
           = (Inl (RequestValidationError [''email'']), empty_store)"
    by (simp add: signup_defs)
  have "map_of ?bad ''email'' = None" by simp
  from bad [THEN conjunct1, THEN mp, OF this]
  have 2: "\<exists>es. signup example_libs empty_store ?bad
             = (Inl (RequestValidationError es), empty_store) \<and> ''email'' \<in> set es" .
  have 3: "signup example_libs empty_store ?good
     = (Inr [(''id'', VStr ''000000000000000000000000'')],
        \<lparr>db = Working,
         colls = [(''user'',
                   [[(''_id'', VObjectId ''000000000000000000000000''),
                     (''email'', VStr ''kit@example.org''), (''nickname'', VStr ''kit''),
                     (''avatar_url'', VStr ''https://example.org/kit.png''), (''bio'', VNone),
                     (''role'', VStr ''user''), (''points'', VInt 0), (''badges'', VList []),
                     (''is_active'', VBool True)]])],
         next_id = 1\<rparr>)"
    by (simp add: signup_defs new_oid_0 Let_def)
  have py: "py_len ''kit'' \<le> 40"
    by (simp add: py_len_def is_cont_def)
  have url: "parse_url example_libs ''https://example.org/kit.png'' \<noteq> None"
    by (simp add: example_libs_def)
  have wk: "db empty_store = Working"
    by (simp add: empty_store_def)
  have hyp: "map_of ?good ''email'' = Some (VStr ''kit@example.org'')
          \<and> map_of ?good ''nickname'' = Some (VStr ''kit'')
          \<and> py_len ''kit'' \<le> 40
          \<and> (map_of ?good ''avatar_url'' = None \<or> map_of ?good ''avatar_url'' = Some VNone
             \<or> (\<exists>u. map_of ?good ''avatar_url'' = Some (VStr u)
                  \<and> parse_url example_libs u \<noteq> None))
          \<and> db empty_store = Working"
    using py url wk by simp
  from good [THEN conjunct2, THEN conjunct1, rule_format, OF hyp]
  obtain uid d where
    "fst (signup example_libs empty_store ?good) = Inr [(''id'', VStr uid)]"
    "map_of d ''_id'' = Some (VObjectId uid)"
    "map_of d ''role'' = Some (VStr ''user'')"
    "map_of d ''points'' = Some (VInt 0)"
    "map_of d ''badges'' = Some (VList [])"
    "map_of d ''is_active'' = Some (VBool True)"
    by blast
  then have 4: "\<exists>uid d.
         fst (signup example_libs empty_store ?good) = Inr [(''id'', VStr uid)]
         \<and> map_of d ''_id'' = Some (VObjectId uid)
         \<and> map_of d ''role'' = Some (VStr ''user'')
         \<and> map_of d ''points'' = Some (VInt 0)
         \<and> map_of d ''badges'' = Some (VList [])
         \<and> map_of d ''is_active'' = Some (VBool True)"
    by blast
  have "\<forall>k \<in> fst ` set [(''role'', VStr ''admin''), (''points'', VInt 9000)].
          k \<in> {''role'', ''points'', ''badges'', ''is_active''}"
    by simp
  from base [THEN conjunct2, THEN conjunct2, THEN spec, THEN mp, OF this]
  have 5: "signup example_libs empty_store
        ([(''role'', VStr ''admin''), (''points'', VInt 9000)] @ ?base)
      = signup example_libs empty_store ?base" .
  show ?thesis
    by (rule conjI [OF 1 conjI [OF 2 conjI [OF 3 conjI [OF 4 5]]]])
qed

section \<open>Free-text search of cats\<close>

text \<open>
  C5: \<open>list_cats\<close> hands \<open>q\<close> to the store as the pattern of a regular expression, as
  it is: for every environment and store, \<open>q = a.c\<close> is searched as the pattern
  \<open>a.c\<close> with option \<open>i\<close> in \<open>name\<close> or \<open>description\<close>. With an engine in which
  \<open>.\<close> stands for any character, the cat named \<open>abc\<close> (with no description) is
  returned for \<open>q = a.c\<close>, although \<open>a.c\<close> does not occur in \<open>abc\<close> as a literal
  substring; the cat described as \<open>Friendly tabby\<close> is returned for \<open>q = TABBY\<close>; and
  for \<open>q = (\<close>, a pattern the engine refuses, the request fails.
\<close>

theorem list_cats_pattern_not_literal:
  "list_cats L st (Some ''a.c'') None
     = run_query L st Cat
         (Or [[(''name'', Regex ''a.c'' ''i'')], [(''description'', Regex ''a.c'' ''i'')]]) 50
   \<and> list_cats example_libs cat_store (Some ''a.c'') None
     = Inr [[(''name'', VStr ''abc''), (''description'', VNone),
             (''last_known_lat'', VNone), (''last_known_lng'', VNone),
             (''status'', VStr ''unknown''), (''colony'', VNone), (''photo_url'', VNone),
             (''id'', VStr ''000000000000000000000001'')]]
   \<and> \<not> contains_ci ''a.c'' ''abc''
   \<and> list_cats example_libs cat_store (Some ''TABBY'') None
     = Inr [[(''name'', VStr ''Tom''), (''description'', VStr ''Friendly tabby''),
             (''last_known_lat'', VNone), (''last_known_lng'', VNone),
             (''status'', VStr ''unknown''), (''colony'', VNone), (''photo_url'', VNone),
             (''id'', VStr ''000000000000000000000000'')]]
   \<and> list_cats example_libs cat_store (Some ''('') None = Inl (QueryFailure ''invalid filter'')"
proof -
  have 1: "list_cats L st (Some ''a.c'') None
     = run_query L st Cat
         (Or [[(''name'', Regex ''a.c'' ''i'')], [(''description'', Regex ''a.c'' ''i'')]]) 50"
    by (simp add: list_cats_def Query_def truthy_def)
  have 2: "list_cats example_libs cat_store (Some ''a.c'') None
     = Inr [[(''name'', VStr ''abc''), (''description'', VNone),
             (''last_known_lat'', VNone), (''last_known_lng'', VNone),
             (''status'', VStr ''unknown''), (''colony'', VNone), (''photo_url'', VNone),
             (''id'', VStr ''000000000000000000000001'')]]"
    by (simp add: eval_defs cat_store_def example_libs_def dot_engine_def is_cont_def)
  have 3: "\<not> contains_ci ''a.c'' ''abc''"
    by (simp add: lower_char_def)
  have 4: "list_cats example_libs cat_store (Some ''TABBY'') None
     = Inr [[(''name'', VStr ''Tom''), (''description'', VStr ''Friendly tabby''),
             (''last_known_lat'', VNone), (''last_known_lng'', VNone),
             (''status'', VStr ''unknown''), (''colony'', VNone), (''photo_url'', VNone),
             (''id'', VStr ''000000000000000000000000'')]]"
    by (simp add: eval_defs cat_store_def example_libs_def dot_engine_def is_cont_def)
  have 5: "list_cats example_libs cat_store (Some ''('') None = Inl (QueryFailure ''invalid filter'')"
    by (simp add: eval_defs cat_store_def example_libs_def dot_engine_def)
  show ?thesis
    by (rule conjI [OF 1 conjI [OF 2 conjI [OF 3 conjI [OF 4 5]]]])
qed

end
